theory Spec2Isabelle
  imports Complex_Main "HOL-Library.Word" "HOL-Library.Signed_Division" "HOL-Library.Log_Nat"
begin

unbundle bit_operations_syntax

section \<open>The webhook relay of certwatch-webhook-cli (Go implementation)\<close>

text \<open>
  A shallow embedding of the Go packages \<^verbatim>\<open>internal\<close> and \<^verbatim>\<open>main\<close>:
  the signer and the delivery client (\<^verbatim>\<open>sender.go\<close>), the stream parser and the event
  dispatcher (\<^verbatim>\<open>stream.go\<close>), the session bootstrapper (\<^verbatim>\<open>CreateSession\<close>), the
  summary (\<^verbatim>\<open>output.go\<close>) and the orchestrator \<^verbatim>\<open>Run\<close>.

  Go strings are byte sequences, and so is \<^typ>\<open>string\<close>: one \<^typ>\<open>char\<close> per byte.
  Go's \<^verbatim>\<open>int\<close> (64 bits on every supported platform of the tool) is \<^typ>\<open>int\<close>: the
  only \<^verbatim>\<open>int\<close> arithmetic of the code is the increment of counters that start at 0
  and grow by one per stream record. \<^verbatim>\<open>int64\<close> latencies, which are summed and divided,
  are \<^typ>\<open>64 word\<close> read as signed.
\<close>

subsection \<open>The data model (types.go)\<close>

record CliOptions =
  URL :: string
  Secret :: string
  APIKey :: string
  File :: string
  Raw :: bool
  Preview :: bool
  Verbose :: bool
  NoColor :: bool
  APIEndpoint :: string

text \<open>The three session types share field names with other structs; theirs are prefixed.\<close>

record SessionData =
  sd_TestID :: string
  sd_Secret :: string
  sd_StreamURL :: string
  sd_ExpiresInSeconds :: int
  sd_StreamDurationSeconds :: int

record SessionError =
  se_Code :: string
  se_Message :: string

text \<open>\<^verbatim>\<open>Data\<close> and \<^verbatim>\<open>Error\<close> are pointers: \<open>None\<close> is \<^verbatim>\<open>nil\<close>.\<close>

record SessionResponse =
  sr_Success :: bool
  sr_Data :: "SessionData option"
  sr_Error :: "SessionError option"

record PayloadData =
  Fingerprint :: string
  SerialNumber :: string
  CommonName :: string
  Domains :: "string list"
  IssuerOrg :: string
  IssuerCN :: string
  NotBefore :: string
  NotAfter :: string
  CTLogSources :: "string list"
  SeenAt :: string

record WebhookPayload =
  Event :: string
  EventID :: string
  Timestamp :: string
  APIVersion :: string
  Data :: PayloadData

record StreamMeta =
  TestID :: string
  StreamDurationSeconds :: int

text \<open>
  \<^verbatim>\<open>DeliveryResult.CommonName\<close> clashes with the field of \<^verbatim>\<open>PayloadData\<close>; it is
  \<open>dr_CommonName\<close> here.
\<close>

record DeliveryResult =
  Index :: int
  dr_CommonName :: string
  Status :: int
  StatusText :: string
  LatencyMs :: "64 word"
  Success :: bool
  Error :: string

subsection \<open>Library functions of package strings\<close>

definition HasPrefix :: "string \<Rightarrow> string \<Rightarrow> bool" where
  "HasPrefix s p = (take (length p) s = p)"

definition TrimPrefix :: "string \<Rightarrow> string \<Rightarrow> string" where
  "TrimPrefix s p = (if HasPrefix s p then drop (length p) s else s)"

text \<open>
  \<^verbatim>\<open>strings.TrimSpace\<close> removes leading and trailing white space as Unicode defines it.
  On the UTF-8 bytes of a Go string these are the six ASCII characters and the encodings
  of U+0085, U+00A0, U+1680, U+2000 to U+200A, U+2028, U+2029, U+202F, U+205F and U+3000.
\<close>

definition spaceSeqs :: "string list" where
  "spaceSeqs =
     [[CHR 0x09], [CHR 0x0A], [CHR 0x0B], [CHR 0x0C], [CHR 0x0D], [CHR 0x20],
      [CHR 0xC2, CHR 0x85], [CHR 0xC2, CHR 0xA0],
      [CHR 0xE1, CHR 0x9A, CHR 0x80],
      [CHR 0xE2, CHR 0x80, CHR 0x80], [CHR 0xE2, CHR 0x80, CHR 0x81],
      [CHR 0xE2, CHR 0x80, CHR 0x82], [CHR 0xE2, CHR 0x80, CHR 0x83],
      [CHR 0xE2, CHR 0x80, CHR 0x84], [CHR 0xE2, CHR 0x80, CHR 0x85],
      [CHR 0xE2, CHR 0x80, CHR 0x86], [CHR 0xE2, CHR 0x80, CHR 0x87],
      [CHR 0xE2, CHR 0x80, CHR 0x88], [CHR 0xE2, CHR 0x80, CHR 0x89],
      [CHR 0xE2, CHR 0x80, CHR 0x8A],
      [CHR 0xE2, CHR 0x80, CHR 0xA8], [CHR 0xE2, CHR 0x80, CHR 0xA9],
      [CHR 0xE2, CHR 0x80, CHR 0xAF], [CHR 0xE2, CHR 0x81, CHR 0x9F],
      [CHR 0xE3, CHR 0x80, CHR 0x80]]"

text \<open>The length of the white-space rune the string starts with; 0 when there is none.\<close>

definition leadingSpace :: "string \<Rightarrow> nat" where
  "leadingSpace s =
     (case filter (HasPrefix s) spaceSeqs of [] \<Rightarrow> 0 | q # _ \<Rightarrow> length q)"

text \<open>
  The recursion consumes one byte per call, so it is structural: \<open>k\<close> counts the bytes of
  a white-space rune that are still to be skipped.
\<close>

fun trimLeftFrom :: "nat \<Rightarrow> string \<Rightarrow> string" where
  "trimLeftFrom k [] = []"
| "trimLeftFrom (Suc k) (c # cs) = trimLeftFrom k cs"
| "trimLeftFrom 0 (c # cs) =
     (case leadingSpace (c # cs) of
        0 \<Rightarrow> c # cs
      | Suc k \<Rightarrow> trimLeftFrom k cs)"

definition TrimLeftSpace :: "string \<Rightarrow> string" where
  "TrimLeftSpace s = trimLeftFrom 0 s"

text \<open>
  At the right end the last rune is matched backwards: the reversed string starts with
  the reversed encoding.
\<close>

definition trailingSpace :: "string \<Rightarrow> nat" where
  "trailingSpace r =
     (case filter (\<lambda>q. HasPrefix r (rev q)) spaceSeqs of [] \<Rightarrow> 0 | q # _ \<Rightarrow> length q)"

fun trimRightFrom :: "nat \<Rightarrow> string \<Rightarrow> string" where
  "trimRightFrom k [] = []"
| "trimRightFrom (Suc k) (c # cs) = trimRightFrom k cs"
| "trimRightFrom 0 (c # cs) =
     (case trailingSpace (c # cs) of
        0 \<Rightarrow> c # cs
      | Suc k \<Rightarrow> trimRightFrom k cs)"

definition TrimRightSpace :: "string \<Rightarrow> string" where
  "TrimRightSpace s = rev (trimRightFrom 0 (rev s))"

definition TrimSpace :: "string \<Rightarrow> string" where
  "TrimSpace s = TrimRightSpace (TrimLeftSpace s)"

text \<open>\<^verbatim>\<open>%d\<close> of package fmt: the decimal digits, with a minus sign below zero.\<close>

definition digit :: "nat \<Rightarrow> char" where
  "digit n = ''0123456789'' ! n"

fun decimal :: "nat \<Rightarrow> string" where
  "decimal n = (if n < 10 then [digit n] else decimal (n div 10) @ [digit (n mod 10)])"

definition Itoa :: "int \<Rightarrow> string" where
  "Itoa i = (if i < 0 then CHR ''-'' # decimal (nat (- i)) else decimal (nat i))"

subsection \<open>The signer (sender.go, SignPayload)\<close>

text \<open>
  \<^verbatim>\<open>SignPayload\<close> calls \<^verbatim>\<open>hmac.New(sha256.New, key)\<close>, \<^verbatim>\<open>Write\<close>, \<^verbatim>\<open>Sum(nil)\<close> and
  \<^verbatim>\<open>hex.EncodeToString\<close>. The standard library is not part of the repository; it is
  modelled here from its standards, SHA-256 from FIPS 180-4 and HMAC from RFC 2104
  (block size 64, a longer key is hashed first), so that the signature is a computed
  value.
\<close>

type_synonym byte = "8 word"
type_synonym hash_state = "32 word \<times> 32 word \<times> 32 word \<times> 32 word \<times> 32 word \<times> 32 word \<times> 32 word \<times> 32 word"

text \<open>
  The round constants, each beside the prime it comes from: the first 32 bits of the
  fractional part of the cube root of that prime.
\<close>

definition roundConstants :: "(nat \<times> 32 word) list" where
  "roundConstants =
     [(2, 0x428a2f98), (3, 0x71374491), (5, 0xb5c0fbcf), (7, 0xe9b5dba5),
      (11, 0x3956c25b), (13, 0x59f111f1), (17, 0x923f82a4), (19, 0xab1c5ed5),
      (23, 0xd807aa98), (29, 0x12835b01), (31, 0x243185be), (37, 0x550c7dc3),
      (41, 0x72be5d74), (43, 0x80deb1fe), (47, 0x9bdc06a7), (53, 0xc19bf174),
      (59, 0xe49b69c1), (61, 0xefbe4786), (67, 0x0fc19dc6), (71, 0x240ca1cc),
      (73, 0x2de92c6f), (79, 0x4a7484aa), (83, 0x5cb0a9dc), (89, 0x76f988da),
      (97, 0x983e5152), (101, 0xa831c66d), (103, 0xb00327c8), (107, 0xbf597fc7),
      (109, 0xc6e00bf3), (113, 0xd5a79147), (127, 0x06ca6351), (131, 0x14292967),
      (137, 0x27b70a85), (139, 0x2e1b2138), (149, 0x4d2c6dfc), (151, 0x53380d13),
      (157, 0x650a7354), (163, 0x766a0abb), (167, 0x81c2c92e), (173, 0x92722c85),
      (179, 0xa2bfe8a1), (181, 0xa81a664b), (191, 0xc24b8b70), (193, 0xc76c51a3),
      (197, 0xd192e819), (199, 0xd6990624), (211, 0xf40e3585), (223, 0x106aa070),
      (227, 0x19a4c116), (229, 0x1e376c08), (233, 0x2748774c), (239, 0x34b0bcb5),
      (241, 0x391c0cb3), (251, 0x4ed8aa4a), (257, 0x5b9cca4f), (263, 0x682e6ff3),
      (269, 0x748f82ee), (271, 0x78a5636f), (277, 0x84c87814), (281, 0x8cc70208),
      (283, 0x90befffa), (293, 0xa4506ceb), (307, 0xbef9a3f7), (311, 0xc67178f2)]"

definition K256 :: "32 word list" where
  "K256 = map snd roundConstants"

definition init256 :: hash_state where
  "init256 = (0x6a09e667, 0xbb67ae85, 0x3c6ef372, 0xa54ff53a, 0x510e527f, 0x9b05688c, 0x1f83d9ab, 0x5be0cd19)"

definition rotr :: "nat \<Rightarrow> 32 word \<Rightarrow> 32 word" where
  "rotr n w = word_rotr n w"

definition bsig0 :: "32 word \<Rightarrow> 32 word" where
  "bsig0 x = rotr 2 x XOR rotr 13 x XOR rotr 22 x"
definition bsig1 :: "32 word \<Rightarrow> 32 word" where
  "bsig1 x = rotr 6 x XOR rotr 11 x XOR rotr 25 x"
definition ssig0 :: "32 word \<Rightarrow> 32 word" where
  "ssig0 x = rotr 7 x XOR rotr 18 x XOR drop_bit 3 x"
definition ssig1 :: "32 word \<Rightarrow> 32 word" where
  "ssig1 x = rotr 17 x XOR rotr 19 x XOR drop_bit 10 x"
definition Ch :: "32 word \<Rightarrow> 32 word \<Rightarrow> 32 word \<Rightarrow> 32 word" where
  "Ch x y z = (x AND y) XOR (NOT x AND z)"
definition Maj :: "32 word \<Rightarrow> 32 word \<Rightarrow> 32 word \<Rightarrow> 32 word" where
  "Maj x y z = (x AND y) XOR (x AND z) XOR (y AND z)"

definition be32 :: "32 word \<Rightarrow> byte list" where
  "be32 w = [ucast (drop_bit 24 w), ucast (drop_bit 16 w), ucast (drop_bit 8 w), ucast w]"

definition be64 :: "64 word \<Rightarrow> byte list" where
  "be64 w = [ucast (drop_bit 56 w), ucast (drop_bit 48 w), ucast (drop_bit 40 w), ucast (drop_bit 32 w),
             ucast (drop_bit 24 w), ucast (drop_bit 16 w), ucast (drop_bit 8 w), ucast w]"

fun words32 :: "byte list \<Rightarrow> 32 word list" where
  "words32 (a # b # c # d # bs) =
     (push_bit 24 (ucast a) OR push_bit 16 (ucast b) OR push_bit 8 (ucast c) OR ucast d) # words32 bs"
| "words32 _ = []"

text \<open>The message schedule: \<open>ws\<close> holds the words computed so far, newest first.\<close>

fun schedule :: "nat \<Rightarrow> 32 word list \<Rightarrow> 32 word list" where
  "schedule 0 ws = ws"
| "schedule (Suc n) ws =
     schedule n ((ssig1 (ws ! 1) + ws ! 6 + ssig0 (ws ! 14) + ws ! 15) # ws)"

definition round256 :: "hash_state \<Rightarrow> 32 word \<times> 32 word \<Rightarrow> hash_state" where
  "round256 s kw =
     (case s of (a, b, c, d, e, f, g, h) \<Rightarrow>
        let t1 = h + bsig1 e + Ch e f g + fst kw + snd kw;
            t2 = bsig0 a + Maj a b c
        in (t1 + t2, a, b, c, d + t1, e, f, g))"

definition addState :: "hash_state \<Rightarrow> hash_state \<Rightarrow> hash_state" where
  "addState s t =
     (case s of (a, b, c, d, e, f, g, h) \<Rightarrow>
      case t of (a', b', c', d', e', f', g', h') \<Rightarrow>
        (a + a', b + b', c + c', d + d', e + e', f + f', g + g', h + h'))"

definition block256 :: "hash_state \<Rightarrow> byte list \<Rightarrow> hash_state" where
  "block256 s blk =
     addState s (foldl round256 s (zip K256 (rev (schedule 48 (rev (words32 blk))))))"

fun blocks :: "nat \<Rightarrow> byte list \<Rightarrow> byte list list" where
  "blocks 0 bs = []"
| "blocks (Suc n) bs = take 64 bs # blocks n (drop 64 bs)"

definition pad256 :: "byte list \<Rightarrow> byte list" where
  "pad256 m =
     m @ [0x80] @ replicate ((119 - length m mod 64) mod 64) 0 @ be64 (word_of_nat (8 * length m))"

definition digestBytes :: "hash_state \<Rightarrow> byte list" where
  "digestBytes s =
     (case s of (a, b, c, d, e, f, g, h) \<Rightarrow>
        be32 a @ be32 b @ be32 c @ be32 d @ be32 e @ be32 f @ be32 g @ be32 h)"

definition Sum256 :: "byte list \<Rightarrow> byte list" where
  "Sum256 m =
     (let p = pad256 m
      in digestBytes (foldl block256 init256 (blocks (length p div 64) p)))"

definition hmacSum :: "byte list \<Rightarrow> byte list \<Rightarrow> byte list" where
  "hmacSum key msg =
     (let k = (if length key > 64 then Sum256 key else key);
          k' = k @ replicate (64 - length k) 0
      in Sum256 (map (\<lambda>b. b XOR 0x5c) k' @ Sum256 (map (\<lambda>b. b XOR 0x36) k' @ msg)))"

definition hexdigit :: "nat \<Rightarrow> char" where
  "hexdigit n = ''0123456789abcdef'' ! n"

definition EncodeToString :: "byte list \<Rightarrow> string" where
  "EncodeToString bs = concat (map (\<lambda>b. [hexdigit (unat b div 16), hexdigit (unat b mod 16)]) bs)"

definition bytesOf :: "string \<Rightarrow> byte list" where
  "bytesOf s = map of_char s"

definition SignPayload :: "string \<Rightarrow> string \<Rightarrow> string" where
  "SignPayload body secret = EncodeToString (hmacSum (bytesOf secret) (bytesOf body))"

subsection \<open>The environment\<close>

text \<open>
  What the program calls and does not define is a parameter of the model. \<open>ext\<close> holds
  the pure library functions of packages \<^verbatim>\<open>encoding/json\<close> and \<^verbatim>\<open>net/http\<close>:
  \<^verbatim>\<open>json.Marshal\<close> of a payload (\<open>Inl\<close> carries the error text), \<^verbatim>\<open>json.Marshal\<close> of the
  one-entry map that \<^verbatim>\<open>CreateSession\<close> sends, \<^verbatim>\<open>json.Unmarshal\<close> into each of the three
  structs (\<open>None\<close> is a decoding error) and \<^verbatim>\<open>http.StatusText\<close>.
\<close>

record ext =
  json_Marshal :: "WebhookPayload \<Rightarrow> string + string"
  Marshal_secret :: "string \<Rightarrow> string"
  Unmarshal_meta :: "string \<Rightarrow> StreamMeta option"
  Unmarshal_payload :: "string \<Rightarrow> WebhookPayload option"
  Decode_session :: "string \<Rightarrow> SessionResponse option"
  http_StatusText :: "int \<Rightarrow> string"

record http_request =
  req_method :: string
  req_url :: string
  req_headers :: "(string \<times> string) list"
  req_body :: string

text \<open>
  The outcome of building a request and of \<^verbatim>\<open>client.Do\<close>: \<^verbatim>\<open>http.NewRequest\<close> fails,
  the transport fails (a timeout and a cancelled context are transport failures), or a
  response arrives with its status code and body.
\<close>

datatype http_reply = NewRequestError string | DoError string | Response int string

text \<open>
  \<open>world\<close> is everything outside the process: the three HTTP peers, the file system and
  the signal. The target endpoint answers the \<open>n\<close>-th delivery of the run after
  \<open>target_elapsed n\<close> milliseconds. \<open>stream_read_error\<close> is the error, if any, that ends
  the reading of the stream body instead of end-of-file.

  The context of \<^verbatim>\<open>signal.NotifyContext\<close> is cancelled at most once and stays cancelled.
  The run observes it at a sequence of points (once per scanned line, once after the
  loop, twice in \<^verbatim>\<open>Run\<close>), which the model counts: \<open>cancel_at = Some k\<close> says that the
  signal arrives before observation number \<open>k\<close>, \<open>None\<close> that it never arrives.
\<close>

record world =
  session_http :: "http_request \<Rightarrow> http_reply"
  stream_http :: "http_request \<Rightarrow> http_reply"
  stream_read_error :: "string option"
  target_http :: "nat \<Rightarrow> http_request \<Rightarrow> http_reply"
  target_elapsed :: "nat \<Rightarrow> 64 word"
  open_file :: "string \<Rightarrow> string option"
  cancel_at :: "nat option"

definition ctxDone :: "nat option \<Rightarrow> nat \<Rightarrow> bool" where
  "ctxDone c t = (case c of None \<Rightarrow> False | Some k \<Rightarrow> k \<le> t)"

subsection \<open>The delivery client (sender.go, DeliverPayload)\<close>

text \<open>
  The function returns its \<^verbatim>\<open>DeliveryResult\<close> and, beside it, the requests it handed to
  \<^verbatim>\<open>client.Do\<close>, so that the number of attempts is a value of the model.
\<close>

definition DeliverPayload ::
  "ext \<Rightarrow> world \<Rightarrow> nat \<Rightarrow> WebhookPayload \<Rightarrow> string \<Rightarrow> string \<Rightarrow> int
     \<Rightarrow> DeliveryResult \<times> http_request list" where
  "DeliverPayload x w n payload targetURL secret index =
     (let result = \<lparr>Index = index, dr_CommonName = CommonName (Data payload), Status = 0,
                     StatusText = [], LatencyMs = 0, Success = False, Error = []\<rparr>
      in case json_Marshal x payload of
           Inl err \<Rightarrow> (result\<lparr>Error := ''failed to marshal payload: '' @ err\<rparr>, [])
         | Inr body \<Rightarrow>
            (let signature = SignPayload body secret;
                 req = \<lparr>req_method = ''POST'', req_url = targetURL,
                        req_headers = [(''Content-Type'', ''application/json''),
                                   (''User-Agent'', ''CertWatch-Webhook/1.0''),
                                   (''X-CertWatch-Event-Id'', EventID payload),
                                   (''X-CertWatch-Timestamp'', Timestamp payload),
                                   (''X-CertWatch-Signature'', ''sha256='' @ signature)],
                        req_body = body\<rparr>
             in case target_http w n req of
                  NewRequestError err \<Rightarrow>
                    (result\<lparr>Error := ''failed to create request: '' @ err\<rparr>, [])
                | DoError err \<Rightarrow>
                    (result\<lparr>LatencyMs := target_elapsed w n,
                            Error := ''delivery failed: '' @ err\<rparr>, [req])
                | Response code _ \<Rightarrow>
                    (let result = result\<lparr>LatencyMs := target_elapsed w n, Status := code,
                                          StatusText := http_StatusText x code,
                                          Success := (code \<ge> 200 \<and> code < 300)\<rparr>
                     in (if \<not> Success result
                         then result\<lparr>Error := ''received status '' @ Itoa code @ '' ''
                                                  @ StatusText result\<rparr>
                         else result, [req]))))"

subsection \<open>The stream parser and the event dispatcher (stream.go)\<close>

text \<open>
  A callback is a function on the state it closes over; \<open>None\<close> is a \<^verbatim>\<open>nil\<close> callback.
\<close>

record 'st StreamCallbacks =
  OnMeta :: "(StreamMeta \<Rightarrow> 'st \<Rightarrow> 'st) option"
  OnPayload :: "(WebhookPayload \<Rightarrow> 'st \<Rightarrow> 'st) option"
  OnComplete :: "(string \<Rightarrow> 'st \<Rightarrow> 'st) option"
  OnError :: "(string \<Rightarrow> 'st \<Rightarrow> 'st) option"

definition dispatchEvent ::
  "ext \<Rightarrow> string \<Rightarrow> string \<Rightarrow> 'st StreamCallbacks \<Rightarrow> 'st \<Rightarrow> 'st" where
  "dispatchEvent x eventType data callbacks st =
     (if eventType = ''meta'' then
        (case OnMeta callbacks of
           None \<Rightarrow> st
         | Some f \<Rightarrow> (case Unmarshal_meta x data of None \<Rightarrow> st | Some meta \<Rightarrow> f meta st))
      else if eventType = ''complete'' then
        (case OnComplete callbacks of None \<Rightarrow> st | Some f \<Rightarrow> f data st)
      else if eventType = ''error'' then
        (case OnError callbacks of None \<Rightarrow> st | Some f \<Rightarrow> f data st)
      else
        (case OnPayload callbacks of
           None \<Rightarrow> st
         | Some f \<Rightarrow> (case Unmarshal_payload x data of None \<Rightarrow> st | Some payload \<Rightarrow> f payload st)))"

text \<open>
  \<^verbatim>\<open>bufio.Scanner\<close> with its default split function \<^verbatim>\<open>ScanLines\<close>: a line ends at a
  newline, a last line without one counts when it is not empty, and one trailing carriage
  return is dropped. With \<^verbatim>\<open>scanner.Buffer(buf, 1024*1024)\<close> a line of that many bytes or
  more stops the scanner with \<^verbatim>\<open>ErrTooLong\<close>. The lines read before a read error are
  still delivered.
\<close>

definition maxTokenSize :: nat where
  "maxTokenSize = 1024 * 1024"

fun rawLines :: "string \<Rightarrow> string \<Rightarrow> string list" where
  "rawLines acc [] = (if acc = [] then [] else [rev acc])"
| "rawLines acc (c # cs) =
     (if c = CHR 0x0A then rev acc # rawLines [] cs else rawLines (c # acc) cs)"

definition dropCR :: "string \<Rightarrow> string" where
  "dropCR s = (if s \<noteq> [] \<and> last s = CHR 0x0D then butlast s else s)"

datatype scan_error = ErrTooLong | ReadFailed string

definition scanAll :: "string \<Rightarrow> string option \<Rightarrow> string list \<times> scan_error option" where
  "scanAll bytes rerr =
     (let toks = rawLines [] bytes;
          ok = takeWhile (\<lambda>t. length t < maxTokenSize) toks
      in (map dropCR ok,
          if length ok < length toks then Some ErrTooLong else map_option ReadFailed rerr))"

text \<open>
  The loop \<^verbatim>\<open>for scanner.Scan()\<close> of \<^verbatim>\<open>ConnectStream\<close>, over the lines the scanner yields.
  \<open>disp\<close> is the call \<^verbatim>\<open>dispatchEvent(currentEvent, data, callbacks)\<close>; it is a parameter so
  that the pairs handed to the dispatcher can be observed. The result says whether the
  loop returned \<^verbatim>\<open>ctx.Err()\<close>, and gives the number of observations of the context made
  so far and the state the callbacks left.
\<close>

fun scanLoop ::
  "(string \<Rightarrow> string \<Rightarrow> 'st \<Rightarrow> 'st) \<Rightarrow> nat option \<Rightarrow> nat \<Rightarrow> string \<Rightarrow> string list \<Rightarrow> 'st
     \<Rightarrow> bool \<times> nat \<times> 'st" where
  "scanLoop disp c t currentEvent [] st = (False, t, st)"
| "scanLoop disp c t currentEvent (line # rest) st =
     (if ctxDone c t then (True, Suc t, st)
      else if HasPrefix line '':'' then scanLoop disp c (Suc t) currentEvent rest st
      else if line = [] then scanLoop disp c (Suc t) [] rest st
      else if HasPrefix line ''event:'' then
        scanLoop disp c (Suc t) (TrimSpace (TrimPrefix line ''event:'')) rest st
      else if HasPrefix line ''data:'' then
        scanLoop disp c (Suc t) currentEvent rest
          (disp currentEvent (TrimSpace (TrimPrefix line ''data:'')) st)
      else scanLoop disp c (Suc t) currentEvent rest st)"

datatype stream_error =
    CreateRequestFailed string
  | ConnectFailed string
  | BadStatus int
  | ContextCanceled
  | ReadError scan_error

definition streamRequest :: "string \<Rightarrow> string \<Rightarrow> http_request" where
  "streamRequest streamURL secret =
     \<lparr>req_method = ''GET'', req_url = streamURL,
      req_headers = [(''Authorization'', ''Bearer '' @ secret), (''Accept'', ''text/event-stream''),
                 (''Cache-Control'', ''no-cache''), (''Connection'', ''keep-alive'')],
      req_body = []\<rparr>"

definition ConnectStream ::
  "ext \<Rightarrow> world \<Rightarrow> nat \<Rightarrow> string \<Rightarrow> string \<Rightarrow> 'st StreamCallbacks \<Rightarrow> 'st
     \<Rightarrow> stream_error option \<times> nat \<times> 'st" where
  "ConnectStream x w t streamURL secret callbacks st =
     (case stream_http w (streamRequest streamURL secret) of
        NewRequestError e \<Rightarrow> (Some (CreateRequestFailed e), t, st)
      | DoError e \<Rightarrow> (Some (ConnectFailed e), t, st)
      | Response code bytes \<Rightarrow>
          if code \<noteq> 200 then (Some (BadStatus code), t, st)
          else
            (case scanAll bytes (stream_read_error w) of
               (lines, serr) \<Rightarrow>
                 (case scanLoop (\<lambda>k d. dispatchEvent x k d callbacks) (cancel_at w) t [] lines st of
                    (True, t', st') \<Rightarrow> (Some ContextCanceled, t', st')
                  | (False, t', st') \<Rightarrow>
                      (case serr of
                         None \<Rightarrow> (None, t', st')
                       | Some e \<Rightarrow>
                           if ctxDone (cancel_at w) t' then (Some ContextCanceled, Suc t', st')
                           else (Some (ReadError e), Suc t', st')))))"

subsection \<open>The session bootstrapper (CreateSession)\<close>

definition sessionPath :: string where
  "sessionPath = ''/api/v1/tools/webhook-test/session''"

datatype session_error =
    SessionRequestFailed string
  | SessionConnectFailed string
  | SessionFailedWith int string string
  | SessionFailedStatus int
  | SessionDecodeFailed
  | SessionRejected string string
  | SessionUnsuccessful

definition sessionRequest :: "ext \<Rightarrow> string \<Rightarrow> string \<Rightarrow> string \<Rightarrow> http_request" where
  "sessionRequest x apiEndpoint apiKey userSecret =
     \<lparr>req_method = ''POST'', req_url = apiEndpoint @ sessionPath,
      req_headers = [(''X-API-Key'', apiKey), (''Accept'', ''application/json'')]
         @ (if userSecret \<noteq> [] then [(''Content-Type'', ''application/json'')] else []),
      req_body = (if userSecret \<noteq> [] then Marshal_secret x userSecret else [])\<rparr>"

text \<open>The Go function returns a pointer and an error; \<open>Inl\<close> is \<^verbatim>\<open>(nil, err)\<close>.\<close>

definition CreateSession ::
  "ext \<Rightarrow> world \<Rightarrow> string \<Rightarrow> string \<Rightarrow> string \<Rightarrow> session_error + SessionResponse" where
  "CreateSession x w apiEndpoint apiKey userSecret =
     (let req = sessionRequest x apiEndpoint apiKey userSecret
      in case session_http w req of
           NewRequestError e \<Rightarrow> Inl (SessionRequestFailed e)
         | DoError e \<Rightarrow> Inl (SessionConnectFailed e)
         | Response code bytes \<Rightarrow>
             if code \<noteq> 200 \<and> code \<noteq> 201 then
               (case Decode_session x bytes of
                  None \<Rightarrow> Inl (SessionFailedStatus code)
                | Some sessResp \<Rightarrow>
                    (case sr_Error sessResp of
                       None \<Rightarrow> Inl (SessionFailedStatus code)
                     | Some e \<Rightarrow> Inl (SessionFailedWith code (se_Code e) (se_Message e))))
             else
               (case Decode_session x bytes of
                  None \<Rightarrow> Inl SessionDecodeFailed
                | Some sessResp \<Rightarrow>
                    if \<not> sr_Success sessResp \<or> sr_Data sessResp = None then
                      (case sr_Error sessResp of
                         Some e \<Rightarrow> Inl (SessionRejected (se_Code e) (se_Message e))
                       | None \<Rightarrow> Inl SessionUnsuccessful)
                    else Inr sessResp))"

subsection \<open>The summary (output.go, PrintSummary)\<close>







text \<open>The values \<^verbatim>\<open>PrintSummary\<close> computes before it prints.\<close>

record summary =
  total :: int
  succeeded :: int
  failed :: int
  totalLatency :: "64 word"
  avgMs :: "64 word"
  pct :: rat
  elapsedSec :: rat



subsection \<open>The orchestrator (Run)\<close>

text \<open>
  The variables \<^verbatim>\<open>Run\<close> shares with its callbacks, what the sinks have written, the
  requests sent to the target, the error \<^verbatim>\<open>ConnectStream\<close> returned and the number of
  observations of the context made so far. Decorative terminal output is not part of
  the state.
\<close>

record run_state =
  results :: "DeliveryResult list"
  index :: int
  filePayloads :: int
  streamDuration :: int
  stdout_lines :: "string list"
  file_lines :: "string list"
  sent :: "http_request list"
  streamErr :: "stream_error option"
  ctxChecks :: nat

definition initState :: run_state where
  "initState = \<lparr>results = [], index = 0, filePayloads = 0, streamDuration = 0,
                 stdout_lines = [], file_lines = [], sent = [], streamErr = None,
                 ctxChecks = 0\<rparr>"

datatype run_error =
    SessionFailed session_error
  | OpenFileFailed string
  | StreamFailed stream_error
  | DeliveriesFailed

text \<open>\<^verbatim>\<open>Run\<close> returns an error, \<open>None\<close> for \<^verbatim>\<open>nil\<close>, or panics on a nil pointer.\<close>

datatype run_exit = Exit "run_error option" | Panic

fun checkForFailures :: "DeliveryResult list \<Rightarrow> run_error option" where
  "checkForFailures [] = None"
| "checkForFailures (r # rs) =
     (if \<not> Success r then Some DeliveriesFailed else checkForFailures rs)"

text \<open>
  The callback \<^verbatim>\<open>OnPayload\<close> of \<^verbatim>\<open>Run\<close>: the counter first, then the sinks in the order
  stdout, file, HTTP delivery. \<open>outFile\<close> says that the file is open. The target's
  answer to a delivery is chosen by the number of deliveries made before it.
\<close>

definition onPayload ::
  "ext \<Rightarrow> world \<Rightarrow> CliOptions \<Rightarrow> string \<Rightarrow> bool \<Rightarrow> WebhookPayload \<Rightarrow> run_state \<Rightarrow> run_state" where
  "onPayload x w opts secret outFile payload s =
     (let s1 = s\<lparr>index := index s + 1\<rparr>;
          currentIndex = index s1;
          s2 = (if Raw opts
                then (case json_Marshal x payload of
                        Inr line \<Rightarrow> s1\<lparr>stdout_lines := stdout_lines s1 @ [line]\<rparr>
                      | Inl _ \<Rightarrow> s1)
                else s1);
          s3 = (if outFile
                then (case json_Marshal x payload of
                        Inr line \<Rightarrow> s2\<lparr>file_lines := file_lines s2 @ [line],
                                        filePayloads := filePayloads s2 + 1\<rparr>
                      | Inl _ \<Rightarrow> s2)
                else s2)
      in if URL opts \<noteq> [] then
           (case DeliverPayload x w (length (results s3)) payload (URL opts) secret currentIndex of
              (result, reqs) \<Rightarrow> s3\<lparr>results := results s3 @ [result], sent := sent s3 @ reqs\<rparr>)
         else s3)"

definition onMeta :: "StreamMeta \<Rightarrow> run_state \<Rightarrow> run_state" where
  "onMeta meta s = s\<lparr>streamDuration := StreamDurationSeconds meta\<rparr>"

text \<open>\<^verbatim>\<open>OnComplete\<close> and \<^verbatim>\<open>OnError\<close> only print.\<close>

definition runCallbacks ::
  "ext \<Rightarrow> world \<Rightarrow> CliOptions \<Rightarrow> string \<Rightarrow> bool \<Rightarrow> run_state StreamCallbacks" where
  "runCallbacks x w opts secret outFile =
     \<lparr>OnMeta = Some onMeta, OnPayload = Some (onPayload x w opts secret outFile),
      OnComplete = Some (\<lambda>message s. s), OnError = Some (\<lambda>message s. s)\<rparr>"

text \<open>
  Lines 214 to 228 of \<^verbatim>\<open>Run\<close>: the value returned once the stream has ended, from the
  error of \<^verbatim>\<open>ConnectStream\<close>, the context (observed at \<open>t\<close>, and at \<open>Suc t\<close> by the second
  condition) and the collected results.
\<close>

definition runReturn ::
  "nat option \<Rightarrow> nat \<Rightarrow> stream_error option \<Rightarrow> DeliveryResult list \<Rightarrow> int \<Rightarrow> run_error option" where
  "runReturn c t e finalResults finalFilePayloads =
     (let hasOutput = (length finalResults > 0 \<or> finalFilePayloads > 0)
      in case e of
           None \<Rightarrow> checkForFailures finalResults
         | Some se \<Rightarrow>
             if ctxDone c t \<and> hasOutput then checkForFailures finalResults
             else if \<not> ctxDone c (Suc t) then Some (StreamFailed se)
             else checkForFailures finalResults)"

definition streamPath :: string where
  "streamPath = ''/api/v1/tools/webhook-test/stream?secret=''"

text \<open>
  Lines 38 to 82 of \<^verbatim>\<open>Run\<close>: the secret, the stream URL and the stream duration, from the
  session in API key mode and from the options otherwise. Reading \<^verbatim>\<open>sess.Data\<close> through
  a nil pointer would panic.
\<close>

definition resolveSession ::
  "ext \<Rightarrow> world \<Rightarrow> CliOptions \<Rightarrow> run_exit + (string \<times> string \<times> int)" where
  "resolveSession x w opts =
     (if APIKey opts \<noteq> [] then
        (case CreateSession x w (APIEndpoint opts) (APIKey opts) (Secret opts) of
           Inl e \<Rightarrow> Inl (Exit (Some (SessionFailed e)))
         | Inr sess \<Rightarrow>
             (case sr_Data sess of
                None \<Rightarrow> Inl Panic
              | Some d \<Rightarrow> Inr (sd_Secret d, sd_StreamURL d, sd_StreamDurationSeconds d)))
      else Inr (Secret opts, APIEndpoint opts @ streamPath @ Secret opts, 0))"

definition Run :: "ext \<Rightarrow> world \<Rightarrow> CliOptions \<Rightarrow> run_exit \<times> run_state" where
  "Run x w opts =
     (if Preview opts then (Exit None, initState)
      else
        case resolveSession x w opts of
          Inl ex \<Rightarrow> (ex, initState)
        | Inr (secret, streamURL, duration) \<Rightarrow>
            (let s0 = initState\<lparr>streamDuration := duration\<rparr>
             in case (if File opts \<noteq> [] then open_file w (File opts) else None) of
                  Some e \<Rightarrow> (Exit (Some (OpenFileFailed e)), s0)
                | None \<Rightarrow>
                    (case ConnectStream x w 0 streamURL secret
                            (runCallbacks x w opts secret (File opts \<noteq> [])) s0 of
                       (e, t, s) \<Rightarrow>
                         (Exit (runReturn (cancel_at w) t e (results s) (filePayloads s)),
                          s\<lparr>streamErr := e, ctxChecks := t\<rparr>))))"


subsection \<open>Observers and sample inputs\<close>

text \<open>
  \<open>recorder\<close> stands for the dispatcher and lists the pairs it is called with.
  \<open>traceCallbacks\<close> are callbacks that list their own invocations.
\<close>

definition recorder :: "string \<Rightarrow> string \<Rightarrow> (string \<times> string) list \<Rightarrow> (string \<times> string) list" where
  "recorder k d acc = acc @ [(k, d)]"

definition traceCallbacks :: "string list StreamCallbacks" where
  "traceCallbacks =
     \<lparr>OnMeta = Some (\<lambda>meta tr. tr @ [''OnMeta'']),
      OnPayload = Some (\<lambda>payload tr. tr @ [''OnPayload'']),
      OnComplete = Some (\<lambda>message tr. tr @ [''OnComplete'']),
      OnError = Some (\<lambda>message tr. tr @ [''OnError''])\<rparr>"

text \<open>The stream input of the specification's parser example.\<close>

definition metaExample :: string where
  \<open>metaExample = '':hi'' @ [CHR 0x0A] @ ''event: meta'' @ [CHR 0x0A]
     @ ''data: {"testId":"t1","streamDurationSeconds":60}'' @ [CHR 0x0A, CHR 0x0A]\<close>

text \<open>
  A stand-in for the libraries on the few strings the examples use, a world in which
  every peer answers 200 and the stream carries one record, and the options of a run in
  secret mode that delivers to a URL.
\<close>

definition samplePayload :: WebhookPayload where
  "samplePayload =
     \<lparr>Event = ''certificate.new'', EventID = ''e1'', Timestamp = ''2026-01-01T00:00:00Z'',
      APIVersion = ''2026-01-01'',
      Data = \<lparr>Fingerprint = ''ab'', SerialNumber = ''01'', CommonName = ''example.com'',
               Domains = [''example.com''], IssuerOrg = ''Example CA'', IssuerCN = ''R1'',
               NotBefore = [], NotAfter = [], CTLogSources = [], SeenAt = []\<rparr>\<rparr>"

definition sampleSession :: SessionResponse where
  "sampleSession =
     \<lparr>sr_Success = True,
      sr_Data = Some \<lparr>sd_TestID = ''t1'', sd_Secret = ''abc123'',
                      sd_StreamURL = ''https://api.certwatch.app/stream/t1'',
                      sd_ExpiresInSeconds = 300, sd_StreamDurationSeconds = 60\<rparr>,
      sr_Error = None\<rparr>"

definition sampleExt :: ext where
  \<open>sampleExt =
     \<lparr>json_Marshal = (\<lambda>p. Inr (''{"event_id":"'' @ EventID p @ ''"}'')),
      Marshal_secret = (\<lambda>s. ''{"secret":"'' @ s @ ''"}''),
      Unmarshal_meta = (\<lambda>s. if s = ''{"testId":"t1","streamDurationSeconds":60}''
                            then Some \<lparr>TestID = ''t1'', StreamDurationSeconds = 60\<rparr> else None),
      Unmarshal_payload = (\<lambda>s. if s = ''{"event_id":"e1"}'' then Some samplePayload else None),
      Decode_session = (\<lambda>s. if s = ''{"success":true}'' then Some sampleSession else None),
      http_StatusText = (\<lambda>c. if c = 200 then ''OK''
                             else if c = 500 then ''Internal Server Error'' else [])\<rparr>\<close>

definition sampleStream :: string where
  \<open>sampleStream = ''data: {"event_id":"e1"}'' @ [CHR 0x0A]\<close>

definition sampleWorld :: world where
  \<open>sampleWorld =
     \<lparr>session_http = (\<lambda>r. Response 200 ''{"success":true}''),
      stream_http = (\<lambda>r. Response 200 sampleStream),
      stream_read_error = None,
      target_http = (\<lambda>n r. Response 200 []),
      target_elapsed = (\<lambda>n. 10),
      open_file = (\<lambda>p. None),
      cancel_at = None\<rparr>\<close>

definition sampleOpts :: CliOptions where
  "sampleOpts =
     \<lparr>URL = ''http://localhost:3000/webhook'', Secret = ''abc123'', APIKey = [], File = [],
      Raw = False, Preview = False, Verbose = False, NoColor = False,
      APIEndpoint = ''https://api.certwatch.app''\<rparr>"


text \<open>
  The stream records of a run, counted apart from the run's own counter: the pairs the
  parser hands to the dispatcher whose kind is none of meta, complete and error and whose
  data decodes to a payload. \<open>streamLines\<close> are the lines the scanner yields for the
  connection \<^verbatim>\<open>Run\<close> opens; there are none when the connection fails.
\<close>

definition isRecord :: "ext \<Rightarrow> string \<times> string \<Rightarrow> bool" where
  "isRecord x kd =
     (fst kd \<noteq> ''meta'' \<and> fst kd \<noteq> ''complete'' \<and> fst kd \<noteq> ''error''
      \<and> Unmarshal_payload x (snd kd) \<noteq> None)"

definition decodedRecords :: "ext \<Rightarrow> nat option \<Rightarrow> nat \<Rightarrow> string \<Rightarrow> string list \<Rightarrow> nat" where
  "decodedRecords x c t cur lines =
     length (filter (isRecord x) (snd (snd (scanLoop recorder c t cur lines []))))"

definition streamLines :: "world \<Rightarrow> string \<Rightarrow> string \<Rightarrow> string list" where
  "streamLines w streamURL secret =
     (case stream_http w (streamRequest streamURL secret) of
        Response code bytes \<Rightarrow>
          if code = 200 then fst (scanAll bytes (stream_read_error w)) else []
      | _ \<Rightarrow> [])"

text \<open>A stream of a record, a malformed data line and a second record.\<close>

definition twoRecords :: string where
  \<open>twoRecords = ''data: {"event_id":"e1"}'' @ [CHR 0x0A, CHR 0x0A] @ ''data: {not json''
     @ [CHR 0x0A, CHR 0x0A] @ ''data: {"event_id":"e1"}'' @ [CHR 0x0A, CHR 0x0A]\<close>

section \<open>The signer\<close>

lemma length_be32: "length (be32 w) = 4"
  by (simp add: be32_def)

lemma length_digestBytes: "length (digestBytes s) = 32"
  by (simp add: digestBytes_def length_be32 split: prod.splits)

lemma length_Sum256: "length (Sum256 m) = 32"
  by (simp add: Sum256_def Let_def length_digestBytes)

lemma length_hmacSum: "length (hmacSum key msg) = 32"
  by (simp add: hmacSum_def Let_def length_Sum256)

lemma length_EncodeToString: "length (EncodeToString bs) = 2 * length bs"
  by (induction bs) (simp_all add: EncodeToString_def)

text \<open>
  C7. For every body and every secret, of any length and content, \<open>SignPayload\<close> is a
  function of the two alone (equal inputs give equal results), it has no failure value,
  and its hexadecimal output has exactly 64 characters.
\<close>

theorem SignPayload_hex64:
  "(body = body' \<longrightarrow> secret = secret' \<longrightarrow> SignPayload body secret = SignPayload body' secret')
   \<and> length (SignPayload body secret) = 64"
  by (simp add: SignPayload_def length_EncodeToString length_hmacSum)

text \<open>
  The witness is the second test case of RFC 4231, computed by the model: the signature
  is the published one, and it has 64 characters.
\<close>

theorem SignPayload_hex64_witness:
  "SignPayload ''what do ya want for nothing?'' ''Jefe''
     = ''5bdcc146bf60754e6a042426089575c75a003f089d2739839dec58b964ec3843''
   \<and> length (SignPayload ''what do ya want for nothing?'' ''Jefe'') = 64"
proof -
  have "SignPayload ''what do ya want for nothing?'' ''Jefe''
     = ''5bdcc146bf60754e6a042426089575c75a003f089d2739839dec58b964ec3843''"
    by code_simp
  then show ?thesis
    using SignPayload_hex64 [of "''what do ya want for nothing?''" "''what do ya want for nothing?''"
        "''Jefe''" "''Jefe''"]
    by blast
qed

section \<open>The delivery client\<close>

text \<open>
  C4. For every result of \<open>DeliverPayload\<close>, success holds exactly when the status is at
  least 200 and below 300; a status of 0 comes with no success and a non-empty error
  text; and the client hands at most one request to the transport (no retry).
\<close>

theorem DeliverPayload_outcome:
  "(case DeliverPayload x w n payload targetURL secret i of
      (r, reqs) \<Rightarrow>
        Success r = (200 \<le> Status r \<and> Status r < 300)
        \<and> (Status r = 0 \<longrightarrow> \<not> Success r \<and> Error r \<noteq> [])
        \<and> length reqs \<le> 1)"
  by (simp add: DeliverPayload_def Let_def split: sum.splits http_reply.splits)

text \<open>The witness: the transport times out.\<close>

theorem DeliverPayload_outcome_witness:
  "(case DeliverPayload sampleExt (sampleWorld\<lparr>target_http := (\<lambda>n r. DoError ''timeout'')\<rparr>) 0
           samplePayload ''http://localhost:3000/webhook'' ''abc123'' 1 of
      (r, reqs) \<Rightarrow> Status r = 0 \<and> \<not> Success r \<and> Error r = ''delivery failed: timeout''
         \<and> length reqs = 1)"
  using DeliverPayload_outcome [of sampleExt "sampleWorld\<lparr>target_http := (\<lambda>n r. DoError ''timeout'')\<rparr>" 0
      samplePayload "''http://localhost:3000/webhook''" "''abc123''" 1]
  by (simp add: DeliverPayload_def sampleExt_def sampleWorld_def Let_def)

section \<open>The session bootstrapper\<close>

text \<open>
  C10. \<open>CreateSession\<close> returns a response (a nil error) exactly when the peer answers 200
  or 201 with a body that decodes to an envelope with \<open>Success\<close> set and \<open>Data\<close> present,
  and then it returns that envelope; so a returned response has \<open>Success\<close> true and
  non-nil \<open>Data\<close>. Another status, an undecodable body, and an envelope with \<open>Success\<close>
  false or without data give an error and no response. The reads of \<open>sess.Data\<close> in
  \<open>Run\<close> therefore never panic.
\<close>

theorem CreateSession_ok_iff:
  "(CreateSession x w a k u = Inr r \<longleftrightarrow>
      (\<exists>code bytes. session_http w (sessionRequest x a k u) = Response code bytes
          \<and> (code = 200 \<or> code = 201) \<and> Decode_session x bytes = Some r
          \<and> sr_Success r \<and> sr_Data r \<noteq> None))
   \<and> (CreateSession x w a k u = Inr r \<longrightarrow> sr_Success r \<and> sr_Data r \<noteq> None)
   \<and> (session_http w (sessionRequest x a k u) = Response code bytes
        \<and> ((code \<noteq> 200 \<and> code \<noteq> 201) \<or> Decode_session x bytes = None
            \<or> (\<exists>r'. Decode_session x bytes = Some r' \<and> (\<not> sr_Success r' \<or> sr_Data r' = None)))
        \<longrightarrow> (\<exists>e. CreateSession x w a k u = Inl e))
   \<and> resolveSession x w opts \<noteq> Inl Panic"
  apply (intro conjI)
  subgoal by (auto simp: CreateSession_def Let_def split: http_reply.splits option.splits if_splits)
  subgoal by (auto simp: CreateSession_def Let_def split: http_reply.splits option.splits if_splits)
  subgoal by (auto simp: CreateSession_def Let_def split: http_reply.splits option.splits if_splits)
  subgoal by (auto simp: resolveSession_def CreateSession_def Let_def
        split: http_reply.splits option.splits if_splits sum.splits)
  done

text \<open>The witness: the sample peer accepts, and a peer that answers 500 is refused.\<close>

theorem CreateSession_ok_iff_witness:
  "CreateSession sampleExt sampleWorld ''https://api.certwatch.app'' ''key'' [] = Inr sampleSession
   \<and> sr_Success sampleSession \<and> sr_Data sampleSession \<noteq> None
   \<and> CreateSession sampleExt (sampleWorld\<lparr>session_http := (\<lambda>r. Response 500 [])\<rparr>)
        ''https://api.certwatch.app'' ''key'' [] = Inl (SessionFailedStatus 500)"
  using CreateSession_ok_iff [of sampleExt sampleWorld "''https://api.certwatch.app''" "''key''" "[]"
      sampleSession 200 "[]" sampleOpts]
  by (simp add: CreateSession_def sampleExt_def sampleWorld_def sampleSession_def Let_def)

section \<open>The stream parser\<close>

lemma ctxDone_mono: "ctxDone c a \<Longrightarrow> a \<le> b \<Longrightarrow> ctxDone c b"
  by (auto simp: ctxDone_def split: option.splits)

lemma not_ctxDone_le: "\<not> ctxDone c b \<Longrightarrow> a \<le> b \<Longrightarrow> \<not> ctxDone c a"
  using ctxDone_mono by blast

lemma data_line_shape:
  "HasPrefix l ''data:'' \<Longrightarrow> \<not> HasPrefix l '':'' \<and> l \<noteq> [] \<and> \<not> HasPrefix l ''event:''"
  by (cases l) (auto simp: HasPrefix_def)

lemma scanLoop_data:
  "\<not> ctxDone c t \<Longrightarrow> HasPrefix l ''data:'' \<Longrightarrow>
   scanLoop disp c t cur (l # rest) st =
     scanLoop disp c (Suc t) cur rest (disp cur (TrimSpace (TrimPrefix l ''data:'')) st)"
  using data_line_shape[of l] by simp

lemma scanLoop_comment:
  "\<not> ctxDone c t \<Longrightarrow> HasPrefix l '':'' \<Longrightarrow>
   scanLoop disp c t cur (l # rest) st = scanLoop disp c (Suc t) cur rest st"
  by simp

lemma scanLoop_blank:
  "\<not> ctxDone c t \<Longrightarrow> scanLoop disp c t cur ([] # rest) st = scanLoop disp c (Suc t) [] rest st"
  by (simp add: HasPrefix_def)

text \<open>
  Lines without an event line among them: the loop over them and what follows is the loop
  over what follows, started in the state they leave, under the kind they leave pending.
\<close>

lemma scanLoop_skip:
  "\<not> ctxDone c (t + length mid) \<Longrightarrow>
   \<forall>l\<in>set mid. \<not> HasPrefix l ''event:'' \<Longrightarrow>
   scanLoop disp c t cur (mid @ rest) st =
     scanLoop disp c (t + length mid) (if [] \<in> set mid then [] else cur) rest
       (snd (snd (scanLoop disp c t cur mid st)))"
proof (induction mid arbitrary: t cur st)
  case Nil
  then show ?case by simp
next
  case (Cons l mid)
  have nd: "\<not> ctxDone c t" "\<not> ctxDone c (Suc t + length mid)"
    using not_ctxDone_le[OF Cons.prems(1), of t] Cons.prems(1) by simp_all
  have shape: "\<not> HasPrefix l ''event:''" "\<forall>l\<in>set mid. \<not> HasPrefix l ''event:''"
    using Cons.prems(2) by auto
  note ih = Cons.IH[OF nd(2) shape(2)]
  consider (comment) "HasPrefix l '':''" "l \<noteq> []"
    | (blank) "l = []"
    | (data) "\<not> HasPrefix l '':''" "l \<noteq> []" "HasPrefix l ''data:''"
    | (other) "\<not> HasPrefix l '':''" "l \<noteq> []" "\<not> HasPrefix l ''data:''"
    by (cases l) (auto simp: HasPrefix_def)
  then show ?case
  proof cases
    case comment
    then show ?thesis using nd(1) ih[of cur st] by simp
  next
    case blank
    then show ?thesis using nd(1) ih[of "[]" st] by (simp add: HasPrefix_def)
  next
    case data
    then show ?thesis
      using nd(1) shape(1) ih[of cur "disp cur (TrimSpace (TrimPrefix l ''data:'')) st"] by simp
  next
    case other
    then show ?thesis using nd(1) shape(1) ih[of cur st] by simp
  qed
qed

lemma trim_abc:
  "TrimSpace (TrimPrefix ''data: a'' ''data:'') = ''a''"
  "TrimSpace (TrimPrefix ''data: b'' ''data:'') = ''b''"
  "TrimSpace (TrimPrefix ''data: c'' ''data:'') = ''c''"
  by code_simp+

text \<open>
  C5. An empty line resets the pending event kind. So when an empty line stands between
  two data lines and no event line stands between them, the second data line is
  dispatched under the empty, default kind, whatever kind the first was dispatched under;
  and the dispatcher treats the empty kind as a payload. The context is not cancelled
  while these lines are read.
\<close>

theorem blank_line_resets_kind:
  assumes "\<not> ctxDone c (t + length mid + 1)"
    and "HasPrefix d1 ''data:''" and "HasPrefix d2 ''data:''"
    and "[] \<in> set mid"
    and "\<forall>l\<in>set mid. \<not> HasPrefix l ''event:''"
  shows "scanLoop disp c t cur ([] # rest) st = scanLoop disp c (Suc t) [] rest st
     \<and> scanLoop disp c t cur (d1 # mid @ d2 # rest) st =
         scanLoop disp c (t + length mid + 2) [] rest
           (disp [] (TrimSpace (TrimPrefix d2 ''data:''))
              (snd (snd (scanLoop disp c (Suc t) cur mid
                 (disp cur (TrimSpace (TrimPrefix d1 ''data:'')) st)))))
     \<and> dispatchEvent x [] dat callbacks st' =
         (case OnPayload callbacks of
            None \<Rightarrow> st'
          | Some f \<Rightarrow> (case Unmarshal_payload x dat of None \<Rightarrow> st' | Some p \<Rightarrow> f p st'))"
proof -
  let ?s1 = "disp cur (TrimSpace (TrimPrefix d1 ''data:'')) st"
  let ?s2 = "snd (snd (scanLoop disp c (Suc t) cur mid ?s1))"
  have n0: "\<not> ctxDone c t" and n1: "\<not> ctxDone c (Suc t + length mid)"
    using not_ctxDone_le[OF assms(1), of t] not_ctxDone_le[OF assms(1), of "Suc t + length mid"]
    by simp_all
  have a: "scanLoop disp c t cur ([] # rest) st = scanLoop disp c (Suc t) [] rest st"
    using n0 by (rule scanLoop_blank)
  have b: "scanLoop disp c t cur (d1 # mid @ d2 # rest) st =
      scanLoop disp c (Suc t) cur (mid @ d2 # rest) ?s1"
    using n0 assms(2) by (rule scanLoop_data)
  have c: "scanLoop disp c (Suc t) cur (mid @ d2 # rest) ?s1
      = scanLoop disp c (Suc t + length mid) [] (d2 # rest) ?s2"
    using scanLoop_skip[OF n1 assms(5), of disp cur "d2 # rest" ?s1] assms(4)
    by (simp del: scanLoop.simps)
  have d: "scanLoop disp c (Suc t + length mid) [] (d2 # rest) ?s2
      = scanLoop disp c (Suc (Suc t + length mid)) [] rest
          (disp [] (TrimSpace (TrimPrefix d2 ''data:'')) ?s2)"
    using n1 assms(3) by (rule scanLoop_data)
  have e: "dispatchEvent x [] dat callbacks st' =
         (case OnPayload callbacks of
            None \<Rightarrow> st'
          | Some f \<Rightarrow> (case Unmarshal_payload x dat of None \<Rightarrow> st' | Some p \<Rightarrow> f p st'))"
    by (simp add: dispatchEvent_def)
  from a b c d e show ?thesis by (simp del: scanLoop.simps)
qed

text \<open>
  The witness: a data line under the kind ping, an empty line, and two more data lines
  with a comment between them and no event line.
\<close>

theorem blank_line_resets_kind_witness:
  "HasPrefix ''data: a'' ''data:'' \<and> HasPrefix ''data: c'' ''data:''
   \<and> scanLoop recorder None 0 ''ping'' [''data: a'', [], ''data: b'', '':keep-alive'', ''data: c''] []
       = (False, 5, [(''ping'', ''a''), ([], ''b''), ([], ''c'')])"
  using blank_line_resets_kind [of None 0 "[[], ''data: b'', '':keep-alive'']" "''data: a''" "''data: c''"
      recorder "''ping''" "[]" "[]"]
  by (simp add: ctxDone_def HasPrefix_def recorder_def trim_abc)

lemma scanAll_metaExample:
  \<open>scanAll metaExample rerr =
     ([   '':hi'', ''event: meta'', ''data: {"testId":"t1","streamDurationSeconds":60}'', []],
      map_option ReadFailed rerr)\<close>
  by (simp add: scanAll_def metaExample_def dropCR_def maxTokenSize_def Let_def)

lemma trim_event: "TrimSpace (TrimPrefix ''event: meta'' ''event:'') = ''meta''"
  by code_simp

lemma trim_data: \<open>TrimSpace (TrimPrefix ''data: {"testId":"t1","streamDurationSeconds":60}'' ''data:'')
   = ''{"testId":"t1","streamDurationSeconds":60}''\<close>
  by code_simp

text \<open>
  C6. A line that begins with a colon is discarded and leaves the pending event kind as
  it is. On the example input the parser hands exactly one pair to the dispatcher, of
  kind meta with the trimmed JSON text, and nothing for the comment line. The context
  is not cancelled while the lines are read.
\<close>

theorem comment_line_discarded:
  \<open>(\<not> ctxDone c t \<longrightarrow> HasPrefix l '':'' \<longrightarrow>
      scanLoop disp c t cur (l # rest) st = scanLoop disp c (Suc t) cur rest st)
   \<and> (\<not> ctxDone c (t + 3) \<longrightarrow>
        scanLoop recorder c t [] (fst (scanAll metaExample rerr)) []
          = (False, t + 4, [(''meta'', ''{"testId":"t1","streamDurationSeconds":60}'')]))\<close>
proof (intro conjI impI)
  assume "\<not> ctxDone c t" "HasPrefix l '':''"
  then show "scanLoop disp c t cur (l # rest) st = scanLoop disp c (Suc t) cur rest st"
    by (rule scanLoop_comment)
next
  assume a: "\<not> ctxDone c (t + 3)"
  have n: "\<not> ctxDone c t" "\<not> ctxDone c (Suc t)" "\<not> ctxDone c (Suc (Suc t))" "\<not> ctxDone c (Suc (Suc (Suc t)))"
    using not_ctxDone_le[OF a, of t] not_ctxDone_le[OF a, of "Suc t"]
      not_ctxDone_le[OF a, of "Suc (Suc t)"] not_ctxDone_le[OF a, of "Suc (Suc (Suc t))"]
    by simp_all
  show \<open>scanLoop recorder c t [] (fst (scanAll metaExample rerr)) []
          = (False, t + 4, [(''meta'', ''{"testId":"t1","streamDurationSeconds":60}'')])\<close>
    using n by (simp add: scanAll_metaExample HasPrefix_def trim_event trim_data recorder_def)
qed


text \<open>The witness: the example read to its end without a signal.\<close>

theorem comment_line_discarded_witness:
  \<open>scanLoop recorder None 0 ''ping'' ['':hi'', ''data: a''] [] = (False, 2, [(''ping'', ''a'')])
   \<and> scanLoop recorder None 0 [] (fst (scanAll metaExample None)) []
       = (False, 4, [(''meta'', ''{"testId":"t1","streamDurationSeconds":60}'')])\<close>
  using comment_line_discarded [of None 0 "'':hi''" recorder "''ping''" "[''data: a'']" "[]" None]
  by (simp add: ctxDone_def HasPrefix_def recorder_def trim_abc)

lemma trim_notjson: "TrimSpace (TrimPrefix ''data: {not json'' ''data:'') = ''{not json''"
  by code_simp
lemma trim_e1: \<open>TrimSpace (TrimPrefix ''data: {"event_id":"e1"}'' ''data:'') = ''{"event_id":"e1"}''\<close>
  by code_simp

text \<open>
  C8. When the JSON text of a data line does not decode into the structure of its kind,
  meta or payload, the dispatcher calls no callback: the state every callback works on
  is unchanged. The loop then goes on with the next line as if the line had not been
  there; the stream is not ended.
\<close>

theorem undecodable_record_dropped:
  "(Unmarshal_meta x dat = None \<longrightarrow> dispatchEvent x ''meta'' dat callbacks st = st)
   \<and> (kind \<noteq> ''meta'' \<and> kind \<noteq> ''complete'' \<and> kind \<noteq> ''error'' \<and> Unmarshal_payload x dat = None
        \<longrightarrow> dispatchEvent x kind dat callbacks st = st)
   \<and> (\<not> ctxDone c t \<and> HasPrefix line ''data:''
        \<and> ((cur = ''meta'' \<and> Unmarshal_meta x (TrimSpace (TrimPrefix line ''data:'')) = None)
            \<or> (cur \<noteq> ''meta'' \<and> cur \<noteq> ''complete'' \<and> cur \<noteq> ''error''
                \<and> Unmarshal_payload x (TrimSpace (TrimPrefix line ''data:'')) = None))
        \<longrightarrow> scanLoop (\<lambda>k d. dispatchEvent x k d callbacks) c t cur (line # rest) st
            = scanLoop (\<lambda>k d. dispatchEvent x k d callbacks) c (Suc t) cur rest st)"
proof (intro conjI impI)
  assume "Unmarshal_meta x dat = None"
  then show "dispatchEvent x ''meta'' dat callbacks st = st"
    by (simp add: dispatchEvent_def split: option.splits)
next
  assume "kind \<noteq> ''meta'' \<and> kind \<noteq> ''complete'' \<and> kind \<noteq> ''error'' \<and> Unmarshal_payload x dat = None"
  then show "dispatchEvent x kind dat callbacks st = st"
    by (simp add: dispatchEvent_def split: option.splits)
next
  let ?d = "TrimSpace (TrimPrefix line ''data:'')"
  assume a: "\<not> ctxDone c t \<and> HasPrefix line ''data:''
        \<and> ((cur = ''meta'' \<and> Unmarshal_meta x ?d = None)
            \<or> (cur \<noteq> ''meta'' \<and> cur \<noteq> ''complete'' \<and> cur \<noteq> ''error''
                \<and> Unmarshal_payload x ?d = None))"
  then have a3: "(cur = ''meta'' \<and> Unmarshal_meta x ?d = None)
            \<or> (cur \<noteq> ''meta'' \<and> cur \<noteq> ''complete'' \<and> cur \<noteq> ''error''
                \<and> Unmarshal_payload x ?d = None)"
    by (elim conjE)
  have same: "dispatchEvent x cur ?d callbacks st = st"
    using a3
  proof (elim disjE conjE)
    assume "cur = ''meta''" "Unmarshal_meta x ?d = None"
    then show ?thesis by (simp add: dispatchEvent_def split: option.splits)
  next
    assume "cur \<noteq> ''meta''" "cur \<noteq> ''complete''" "cur \<noteq> ''error''"
      "Unmarshal_payload x ?d = None"
    then show ?thesis by (simp add: dispatchEvent_def split: option.splits)
  qed
  have "scanLoop (\<lambda>k d. dispatchEvent x k d callbacks) c t cur (line # rest) st
      = scanLoop (\<lambda>k d. dispatchEvent x k d callbacks) c (Suc t) cur rest
          (dispatchEvent x cur ?d callbacks st)"
    using a scanLoop_data[of c t line "\<lambda>k d. dispatchEvent x k d callbacks" cur rest st] by blast
  with same show "scanLoop (\<lambda>k d. dispatchEvent x k d callbacks) c t cur (line # rest) st
            = scanLoop (\<lambda>k d. dispatchEvent x k d callbacks) c (Suc t) cur rest st"
    by simp
qed

text \<open>The witness: a malformed data line followed by a record; only the record reaches a callback.\<close>

theorem undecodable_record_dropped_witness:
  \<open>Unmarshal_payload sampleExt ''{not json'' = None
   \<and> dispatchEvent sampleExt [] ''{not json'' traceCallbacks [] = []
   \<and> dispatchEvent sampleExt ''meta'' ''{not json'' traceCallbacks [] = []
   \<and> scanLoop (\<lambda>k d. dispatchEvent sampleExt k d traceCallbacks) None 0 []
        [''data: {not json'', ''data: {"event_id":"e1"}''] [] = (False, 2, [''OnPayload''])\<close>
  using undecodable_record_dropped [of sampleExt "''{not json''" traceCallbacks "[]" "[]" None 0
      "''data: {not json''" "[]" "[''data: {\"event_id\":\"e1\"}'']"]
  by (simp add: sampleExt_def dispatchEvent_def traceCallbacks_def ctxDone_def HasPrefix_def
      trim_notjson trim_e1)

section \<open>The summary\<close>








section \<open>The orchestrator\<close>

lemma checkForFailures_None: "checkForFailures rs = None \<longleftrightarrow> (\<forall>r\<in>set rs. Success r)"
  by (induction rs) auto

lemma checkForFailures_Some: "checkForFailures rs = Some e \<longleftrightarrow> e = DeliveriesFailed \<and> (\<exists>r\<in>set rs. \<not> Success r)"
  by (induction rs) auto

lemma checkForFailures_fails: "(\<exists>y. checkForFailures rs = Some y) \<longleftrightarrow> (\<exists>r\<in>set rs. \<not> Success r)"
  by (simp add: checkForFailures_Some)

lemma CreateSession_Inr:
  "CreateSession x w a k u = Inr r \<Longrightarrow> sr_Success r \<and> sr_Data r \<noteq> None"
  by (auto simp: CreateSession_def Let_def split: http_reply.splits option.splits if_splits)

lemma resolveSession_Inl:
  "resolveSession x w opts = Inl ex \<Longrightarrow>
     APIKey opts \<noteq> [] \<and>
     (\<exists>se. CreateSession x w (APIEndpoint opts) (APIKey opts) (Secret opts) = Inl se
        \<and> ex = Exit (Some (SessionFailed se)))"
  using CreateSession_Inr[of x w "APIEndpoint opts" "APIKey opts" "Secret opts"]
  by (auto simp: resolveSession_def split: if_splits sum.splits option.splits)

lemma resolveSession_Inr:
  "resolveSession x w opts = Inr tr \<Longrightarrow>
     \<not> (APIKey opts \<noteq> [] \<and>
          (\<exists>se. CreateSession x w (APIEndpoint opts) (APIKey opts) (Secret opts) = Inl se))"
  by (auto simp: resolveSession_def split: if_splits)

lemma runReturn_error_iff:
  "runReturn c t e rs fp \<noteq> None \<longleftrightarrow>
     (e \<noteq> None \<and> \<not> ctxDone c (Suc t)) \<or> (\<exists>r\<in>set rs. \<not> Success r)"
proof (cases e)
  case None
  then show ?thesis by (simp add: runReturn_def Let_def checkForFailures_fails)
next
  case (Some se)
  have m: "ctxDone c t \<Longrightarrow> ctxDone c (Suc t)"
    using ctxDone_mono[of c t "Suc t"] by simp
  show ?thesis
    using Some m by (auto simp: runReturn_def Let_def checkForFailures_fails)
qed


lemma runReturn_cancelled:
  "e \<noteq> None \<Longrightarrow> ctxDone c t \<Longrightarrow> runReturn c t e rs fp = checkForFailures rs"
  using ctxDone_mono[of c t "Suc t"] by (auto simp: runReturn_def Let_def)

text \<open>The shape of a run: either it ends before the stream, or it is the stream followed by the return.\<close>

lemma Run_cases:
  obtains (early) ex where "Run x w opts = (ex, initState)" "ex = Exit None \<longleftrightarrow> Preview opts"
      "ex \<noteq> Exit None \<longrightarrow> \<not> Preview opts \<and> APIKey opts \<noteq> [] \<and>
          (\<exists>se. CreateSession x w (APIEndpoint opts) (APIKey opts) (Secret opts) = Inl se)"
    | (nofile) secret streamURL dur m where "\<not> Preview opts"
      "resolveSession x w opts = Inr (secret, streamURL, dur)"
      "File opts \<noteq> []" "open_file w (File opts) = Some m"
      "Run x w opts = (Exit (Some (OpenFileFailed m)), initState\<lparr>streamDuration := dur\<rparr>)"
    | (stream) secret streamURL dur e t s where "\<not> Preview opts"
      "resolveSession x w opts = Inr (secret, streamURL, dur)"
      "File opts \<noteq> [] \<longrightarrow> open_file w (File opts) = None"
      "ConnectStream x w 0 streamURL secret (runCallbacks x w opts secret (File opts \<noteq> []))
          (initState\<lparr>streamDuration := dur\<rparr>) = (e, t, s)"
      "Run x w opts = (Exit (runReturn (cancel_at w) t e (results s) (filePayloads s)),
          s\<lparr>streamErr := e, ctxChecks := t\<rparr>)"
proof (cases "Preview opts")
  case True
  then show ?thesis using early[of "Exit None"] by (simp add: Run_def)
next
  case np: False
  show ?thesis
  proof (cases "resolveSession x w opts")
    case (Inl ex)
    have "ex \<noteq> Exit None \<and> APIKey opts \<noteq> [] \<and>
          (\<exists>se. CreateSession x w (APIEndpoint opts) (APIKey opts) (Secret opts) = Inl se)"
      using resolveSession_Inl[OF Inl] by auto
    then show ?thesis using early[of ex] np Inl by (simp add: Run_def)
  next
    case (Inr tr)
    obtain secret streamURL dur where tr: "tr = (secret, streamURL, dur)"
      by (cases tr) auto
    show ?thesis
    proof (cases "File opts \<noteq> [] \<and> open_file w (File opts) \<noteq> None")
      case True
      then obtain m where "open_file w (File opts) = Some m" by auto
      then show ?thesis using nofile[of secret streamURL dur m] np Inr tr True
        by (simp add: Run_def Let_def)
    next
      case False
      obtain e t s where cs: "ConnectStream x w 0 streamURL secret
          (runCallbacks x w opts secret (File opts \<noteq> [])) (initState\<lparr>streamDuration := dur\<rparr>) = (e, t, s)"
        using prod_cases3 by blast
      have "Run x w opts = (Exit (runReturn (cancel_at w) t e (results s) (filePayloads s)),
          s\<lparr>streamErr := e, ctxChecks := t\<rparr>)"
        using np Inr tr False cs by (auto simp: Run_def Let_def)
      then show ?thesis using stream[of secret streamURL dur e t s] np Inr tr False cs by auto
    qed
  qed
qed

lemma scanAll_sample:
  \<open>scanAll sampleStream rerr = ([''data: {"event_id":"e1"}''], map_option ReadFailed rerr)\<close>
  by (simp add: sampleStream_def scanAll_def dropCR_def maxTokenSize_def Let_def)

lemmas sample_defs = sampleExt_def sampleWorld_def sampleOpts_def samplePayload_def
  Run_def resolveSession_def ConnectStream_def runCallbacks_def onPayload_def
  DeliverPayload_def dispatchEvent_def runReturn_def initState_def streamPath_def
  streamRequest_def scanAll_sample trim_e1 HasPrefix_def ctxDone_def Let_def

lemma Run_sample_read_error:
  "fst (Run sampleExt (sampleWorld\<lparr>stream_read_error := Some ''connection reset''\<rparr>) sampleOpts)
    = Exit (Some (StreamFailed (ReadError (ReadFailed ''connection reset''))))"
  "results (snd (Run sampleExt (sampleWorld\<lparr>stream_read_error := Some ''connection reset''\<rparr>) sampleOpts))
    = [\<lparr>Index = 1, dr_CommonName = ''example.com'', Status = 200, StatusText = ''OK'',
        LatencyMs = 10, Success = True, Error = []\<rparr>]"
  "streamErr (snd (Run sampleExt (sampleWorld\<lparr>stream_read_error := Some ''connection reset''\<rparr>) sampleOpts))
    = Some (ReadError (ReadFailed ''connection reset''))"
  "ctxChecks (snd (Run sampleExt (sampleWorld\<lparr>stream_read_error := Some ''connection reset''\<rparr>) sampleOpts)) = 2"
  by (simp_all add: sample_defs)


lemma recorder_acc:
  "snd (snd (scanLoop recorder c t cur lines acc))
     = acc @ snd (snd (scanLoop recorder c t cur lines []))"
proof (induction lines arbitrary: t cur acc)
  case Nil
  then show ?case by simp
next
  case (Cons l ls)
  let ?d = "TrimSpace (TrimPrefix l ''data:'')"
  have r: "recorder cur ?d acc = acc @ [(cur, ?d)]" "recorder cur ?d [] = [(cur, ?d)]"
    by (simp_all add: recorder_def)
  have d: "snd (snd (scanLoop recorder c (Suc t) cur ls (recorder cur ?d acc)))
      = acc @ snd (snd (scanLoop recorder c (Suc t) cur ls (recorder cur ?d [])))"
    unfolding r
    using Cons.IH[of "Suc t" cur "acc @ [(cur, ?d)]"] Cons.IH[of "Suc t" cur "[(cur, ?d)]"]
    by simp
  show ?case
    using Cons.IH[of "Suc t" _ acc] d by simp
qed

lemma decodedRecords_step:
  "decodedRecords x c t cur (l # ls) =
     (if ctxDone c t then 0
      else if HasPrefix l '':'' then decodedRecords x c (Suc t) cur ls
      else if l = [] then decodedRecords x c (Suc t) [] ls
      else if HasPrefix l ''event:'' then
        decodedRecords x c (Suc t) (TrimSpace (TrimPrefix l ''event:'')) ls
      else if HasPrefix l ''data:'' then
        (if isRecord x (cur, TrimSpace (TrimPrefix l ''data:'')) then 1 else 0)
          + decodedRecords x c (Suc t) cur ls
      else decodedRecords x c (Suc t) cur ls)"
  unfolding decodedRecords_def
  using recorder_acc[of c "Suc t" cur ls "[(cur, TrimSpace (TrimPrefix l ''data:''))]"]
  by (simp add: recorder_def)

text \<open>What one dispatch does to the counter and to the collected results.\<close>

lemma onPayload_index: "index (onPayload x w opts secret outFile p s) = index s + 1"
  by (simp add: onPayload_def Let_def split: sum.splits prod.splits)

lemma onPayload_results:
  "map Index (results (onPayload x w opts secret outFile p s)) =
     (if URL opts \<noteq> [] then map Index (results s) @ [index s + 1] else map Index (results s))"
  by (simp add: onPayload_def DeliverPayload_def Let_def split: sum.splits prod.splits http_reply.splits)

lemma dispatch_run:
  "index (dispatchEvent x k d (runCallbacks x w opts secret outFile) s)
      = index s + (if isRecord x (k, d) then 1 else 0)
   \<and> map Index (results (dispatchEvent x k d (runCallbacks x w opts secret outFile) s))
      = map Index (results s) @ (if isRecord x (k, d) \<and> URL opts \<noteq> [] then [index s + 1] else [])"
  by (auto simp: dispatchEvent_def runCallbacks_def isRecord_def onMeta_def onPayload_index
      onPayload_results split: option.splits)

lemma upto_shift: "[i + 1..i + 1 + int n] = (i + 1) # [i + 1 + 1..i + 1 + int n]"
  by (subst upto_rec1) simp_all

lemma scanLoop_run_indices:
  "index (snd (snd (scanLoop (\<lambda>k d. dispatchEvent x k d (runCallbacks x w opts secret outFile)) c t cur lines s)))
      = index s + int (decodedRecords x c t cur lines)
   \<and> map Index (results (snd (snd (scanLoop (\<lambda>k d. dispatchEvent x k d (runCallbacks x w opts secret outFile)) c t cur lines s))))
      = map Index (results s) @
          (if URL opts \<noteq> [] then [index s + 1..index s + int (decodedRecords x c t cur lines)] else [])"
proof (induction lines arbitrary: t cur s)
  case Nil
  then show ?case by (simp add: decodedRecords_def)
next
  case (Cons l ls)
  let ?disp = "\<lambda>k d. dispatchEvent x k d (runCallbacks x w opts secret outFile)"
  let ?d = "TrimSpace (TrimPrefix l ''data:'')"
  consider (cancelled) "ctxDone c t"
    | (comment) "\<not> ctxDone c t" "HasPrefix l '':''"
    | (blank) "\<not> ctxDone c t" "\<not> HasPrefix l '':''" "l = []"
    | (event) "\<not> ctxDone c t" "\<not> HasPrefix l '':''" "l \<noteq> []" "HasPrefix l ''event:''"
    | (data) "\<not> ctxDone c t" "\<not> HasPrefix l '':''" "l \<noteq> []" "\<not> HasPrefix l ''event:''"
        "HasPrefix l ''data:''"
    | (other) "\<not> ctxDone c t" "\<not> HasPrefix l '':''" "l \<noteq> []" "\<not> HasPrefix l ''event:''"
        "\<not> HasPrefix l ''data:''"
    by blast
  then show ?case
  proof cases
    case cancelled
    then show ?thesis by (simp add: decodedRecords_step)
  next
    case comment
    then show ?thesis using Cons.IH[of "Suc t" cur s] by (simp add: decodedRecords_step)
  next
    case blank
    then show ?thesis using Cons.IH[of "Suc t" "[]" s] by (simp add: decodedRecords_step)
  next
    case event
    then show ?thesis
      using Cons.IH[of "Suc t" "TrimSpace (TrimPrefix l ''event:'')" s]
      by (simp add: decodedRecords_step)
  next
    case other
    then show ?thesis using Cons.IH[of "Suc t" cur s] by (simp add: decodedRecords_step)
  next
    case data
    have step: "scanLoop ?disp c t cur (l # ls) s = scanLoop ?disp c (Suc t) cur ls (?disp cur ?d s)"
      using data by simp
    have cnt: "decodedRecords x c t cur (l # ls)
        = (if isRecord x (cur, ?d) then 1 else 0) + decodedRecords x c (Suc t) cur ls"
      using data by (simp add: decodedRecords_step)
    note ih = Cons.IH[of "Suc t" cur "?disp cur ?d s"]
    note dr = dispatch_run[of x cur ?d w opts secret outFile s]
    show ?thesis
    proof (cases "isRecord x (cur, ?d)")
      case False
      then show ?thesis unfolding step cnt using ih dr by simp
    next
      case True
      let ?n = "decodedRecords x c (Suc t) cur ls"
      have i1: "index (?disp cur ?d s) = index s + 1"
        using dr True by simp
      have r1: "map Index (results (?disp cur ?d s))
          = map Index (results s) @ (if URL opts \<noteq> [] then [index s + 1] else [])"
        using dr True by simp
      have c1: "int (decodedRecords x c t cur (l # ls)) = 1 + int ?n"
        using cnt True by simp
      have u: "[index s + 1..index s + (1 + int ?n)] = (index s + 1) # [index s + 1 + 1..index s + 1 + int ?n]"
        using upto_shift[of "index s" ?n] by (simp add: add.assoc)
      show ?thesis
        unfolding step c1 using ih i1 r1 u by (simp add: add.assoc)
    qed
  qed
qed

lemma ConnectStream_state:
  "snd (snd (ConnectStream x w t streamURL secret callbacks st))
     = snd (snd (scanLoop (\<lambda>k d. dispatchEvent x k d callbacks) (cancel_at w) t []
                  (streamLines w streamURL secret) st))"
  by (simp add: ConnectStream_def streamLines_def split: http_reply.splits prod.splits bool.splits option.splits)

lemma scanAll_twoRecords:
  \<open>scanAll twoRecords None
     = ([''data: {"event_id":"e1"}'', [], ''data: {not json'', [], ''data: {"event_id":"e1"}'', []], None)\<close>
  by (simp add: twoRecords_def scanAll_def dropCR_def maxTokenSize_def Let_def)

text \<open>
  C1, as the code has it. \<open>Run\<close> returns an error exactly when the run is not a preview
  and the session cannot be created, or the output file cannot be opened, or
  \<open>ConnectStream\<close> returns an error while the context is not cancelled, or at least one
  recorded delivery result has no success. A stream that ends under a cancelled context
  is not a failure by itself: when every recorded result succeeded, \<open>Run\<close> returns nil.
\<close>

theorem Run_failure_iff:
  assumes "Run x w opts = (Exit e, s)"
  shows "(e \<noteq> None \<longleftrightarrow>
      \<not> Preview opts \<and>
      ((APIKey opts \<noteq> [] \<and>
          (\<exists>se. CreateSession x w (APIEndpoint opts) (APIKey opts) (Secret opts) = Inl se))
       \<or> (File opts \<noteq> [] \<and> open_file w (File opts) \<noteq> None)
       \<or> (streamErr s \<noteq> None \<and> \<not> ctxDone (cancel_at w) (Suc (ctxChecks s)))
       \<or> (\<exists>r\<in>set (results s). \<not> Success r)))
    \<and> (streamErr s \<noteq> None \<and> ctxDone (cancel_at w) (ctxChecks s)
          \<and> (\<forall>r\<in>set (results s). Success r) \<longrightarrow> e = None)"
proof (cases x w opts rule: Run_cases)
  case (early ex)
  then show ?thesis using assms by (auto simp: initState_def)
next
  case (nofile secret streamURL dur m)
  then show ?thesis using assms by (auto simp: initState_def)
next
  case (stream secret streamURL dur e' t s')
  have nosess: "\<not> (APIKey opts \<noteq> [] \<and>
          (\<exists>se. CreateSession x w (APIEndpoint opts) (APIKey opts) (Secret opts) = Inl se))"
    using stream(2) by (rule resolveSession_Inr)
  have e: "e = runReturn (cancel_at w) t e' (results s') (filePayloads s')"
    and s: "s = s'\<lparr>streamErr := e', ctxChecks := t\<rparr>"
    using stream(5) assms by auto
  have a: "e \<noteq> None \<longleftrightarrow> (e' \<noteq> None \<and> \<not> ctxDone (cancel_at w) (Suc t)) \<or> (\<exists>r\<in>set (results s'). \<not> Success r)"
    unfolding e by (rule runReturn_error_iff)
  have b: "e' \<noteq> None \<Longrightarrow> ctxDone (cancel_at w) t \<Longrightarrow> e = checkForFailures (results s')"
    unfolding e by (rule runReturn_cancelled)
  show ?thesis
    using a b nosess stream(1,3) s by (auto simp: checkForFailures_None)
qed

text \<open>The witness: the target answers 500 to the one delivery of the sample run.\<close>

theorem Run_failure_iff_witness:
  "fst (Run sampleExt (sampleWorld\<lparr>target_http := (\<lambda>n r. Response 500 [])\<rparr>) sampleOpts)
     = Exit (Some DeliveriesFailed)
   \<and> map Success (results (snd (Run sampleExt (sampleWorld\<lparr>target_http := (\<lambda>n r. Response 500 [])\<rparr>) sampleOpts)))
     = [False]"
  using Run_failure_iff [of sampleExt "sampleWorld\<lparr>target_http := (\<lambda>n r. Response 500 [])\<rparr>" sampleOpts
      "Some DeliveriesFailed"
      "snd (Run sampleExt (sampleWorld\<lparr>target_http := (\<lambda>n r. Response 500 [])\<rparr>) sampleOpts)"]
  by (simp add: sample_defs)

text \<open>
  The claim without the amendment fails: the connection drops after one successful
  delivery, no signal arrives, and \<open>Run\<close> returns a stream error although no recorded
  result failed.
\<close>

theorem stream_error_counterexample:
  "cancel_at (sampleWorld\<lparr>stream_read_error := Some ''connection reset''\<rparr>) = None
   \<and> map Success (results (snd (Run sampleExt
        (sampleWorld\<lparr>stream_read_error := Some ''connection reset''\<rparr>) sampleOpts))) = [True]
   \<and> fst (Run sampleExt (sampleWorld\<lparr>stream_read_error := Some ''connection reset''\<rparr>) sampleOpts)
       = Exit (Some (StreamFailed (ReadError (ReadFailed ''connection reset''))))
   \<and> \<not> (fst (Run sampleExt (sampleWorld\<lparr>stream_read_error := Some ''connection reset''\<rparr>) sampleOpts)
            \<noteq> Exit None
          \<longleftrightarrow> (\<exists>r\<in>set (results (snd (Run sampleExt
                 (sampleWorld\<lparr>stream_read_error := Some ''connection reset''\<rparr>) sampleOpts))).
               \<not> Success r))"
  by (simp add: Run_sample_read_error) (simp add: sampleWorld_def)




text \<open>
  C3. In a run that reaches the stream, the counter ends at the number \<open>N\<close> of decoded
  stream records: every payload callback adds one to it, before any sink. When the run
  delivers to a URL, the indices of the delivery results are 1, 2, ..., \<open>N\<close> in this
  order; without a URL no delivery result exists.
\<close>

theorem Run_indices_contiguous:
  assumes "\<not> Preview opts"
    and "resolveSession x w opts = Inr (secret, streamURL, dur)"
    and "File opts \<noteq> [] \<longrightarrow> open_file w (File opts) = None"
  shows "index (snd (Run x w opts))
        = int (decodedRecords x (cancel_at w) 0 [] (streamLines w streamURL secret))
     \<and> (URL opts \<noteq> [] \<longrightarrow>
          map Index (results (snd (Run x w opts)))
            = [1..int (decodedRecords x (cancel_at w) 0 [] (streamLines w streamURL secret))])
     \<and> (URL opts = [] \<longrightarrow> results (snd (Run x w opts)) = [])"
proof -
  let ?start = "initState\<lparr>streamDuration := dur\<rparr>"
  let ?cb = "runCallbacks x w opts secret (File opts \<noteq> [])"
  let ?n = "decodedRecords x (cancel_at w) 0 [] (streamLines w streamURL secret)"
  define fin where "fin = snd (snd (scanLoop (\<lambda>k d. dispatchEvent x k d ?cb) (cancel_at w) 0 []
                  (streamLines w streamURL secret) ?start))"
  have "\<exists>e t. Run x w opts = (Exit (runReturn (cancel_at w) t e (results fin) (filePayloads fin)),
          fin\<lparr>streamErr := e, ctxChecks := t\<rparr>)"
  proof (cases x w opts rule: Run_cases)
    case (early ex)
    then show ?thesis using assms(1) resolveSession_Inr[OF assms(2)] by auto
  next
    case (nofile secret' streamURL' dur' m)
    then show ?thesis using assms by auto
  next
    case (stream secret' streamURL' dur' e t s')
    have "s' = fin"
      using stream(2,4) assms(2) ConnectStream_state[of x w 0 streamURL secret ?cb ?start]
      by (simp add: fin_def)
    then show ?thesis using stream(5) by blast
  qed
  then have rs: "index (snd (Run x w opts)) = index fin" "results (snd (Run x w opts)) = results fin"
    by auto
  have inv: "index fin = index ?start + int ?n"
    "map Index (results fin) = map Index (results ?start) @
          (if URL opts \<noteq> [] then [index ?start + 1..index ?start + int ?n] else [])"
    unfolding fin_def
    using scanLoop_run_indices[of x w opts secret "File opts \<noteq> []" "cancel_at w" 0 "[]"
        "streamLines w streamURL secret" ?start] by blast+
  have z: "index ?start = 0" "results ?start = []"
    by (simp_all add: initState_def)
  show ?thesis
    unfolding rs using inv z by (auto split: if_splits)
qed

text \<open>The witness: two records around a malformed line get the indices 1 and 2.\<close>

theorem Run_indices_contiguous_witness:
  "resolveSession sampleExt (sampleWorld\<lparr>stream_http := (\<lambda>r. Response 200 twoRecords)\<rparr>) sampleOpts
      = Inr (''abc123'', ''https://api.certwatch.app/api/v1/tools/webhook-test/stream?secret=abc123'', 0)
   \<and> decodedRecords sampleExt None 0 []
        (streamLines (sampleWorld\<lparr>stream_http := (\<lambda>r. Response 200 twoRecords)\<rparr>)
           ''https://api.certwatch.app/api/v1/tools/webhook-test/stream?secret=abc123'' ''abc123'') = 2
   \<and> map Index (results (snd (Run sampleExt
          (sampleWorld\<lparr>stream_http := (\<lambda>r. Response 200 twoRecords)\<rparr>) sampleOpts))) = [1, 2]"
  using Run_indices_contiguous [of sampleOpts sampleExt
      "sampleWorld\<lparr>stream_http := (\<lambda>r. Response 200 twoRecords)\<rparr>" "''abc123''"
      "''https://api.certwatch.app/api/v1/tools/webhook-test/stream?secret=abc123''" 0]
  by (simp add: sampleExt_def sampleWorld_def sampleOpts_def resolveSession_def streamPath_def
      streamLines_def scanAll_twoRecords decodedRecords_def recorder_def isRecord_def
      HasPrefix_def ctxDone_def trim_notjson trim_e1 upto_rec1)

end
